theory Spec2Isabelle
  imports Main "HOL-Library.Word"
begin

section \<open>ECMAScript values used by the form components\<close>

subsection \<open>Strings\<close>

text \<open>
  An ECMAScript string is a finite sequence of 16-bit code units. String literals of the
  source are ASCII; \<open>str\<close> writes them down.
\<close>

type_synonym code_unit = "16 word"
type_synonym jsstring = "code_unit list"

definition str :: "string \<Rightarrow> jsstring" where
  "str cs = map of_char cs"

subsection \<open>Numbers\<close>

text \<open>
  \<open>parseInt\<close> returns a Number (an IEEE 754 double) that is \<open>NaN\<close>, an infinity, or an
  integer with a sign; the sign is kept apart from the magnitude so that \<open>-0\<close> and \<open>+0\<close>
  are different values, as they are in the language. \<open>Finite True m\<close> is \<open>-m\<close>.
\<close>

datatype jsnumber = NaN | Finite bool nat | Infinity bool

definition mathematicalValue :: "jsnumber \<Rightarrow> int option" where
  "mathematicalValue x =
     (case x of
        Finite negative m \<Rightarrow> Some (if negative then - int m else int m)
      | _ \<Rightarrow> None)"

text \<open>
  \<open>Number::lessThan\<close>; \<open>None\<close> is the result \<open>undefined\<close>, which any comparison with
  \<open>NaN\<close> gives.
\<close>

fun lessThan_jsnumber :: "jsnumber \<Rightarrow> jsnumber \<Rightarrow> bool option" where
  "lessThan_jsnumber NaN y = None"
| "lessThan_jsnumber x NaN = None"
| "lessThan_jsnumber (Infinity nx) (Infinity ny) = Some (nx \<and> \<not> ny)"
| "lessThan_jsnumber (Infinity nx) (Finite ny my) = Some nx"
| "lessThan_jsnumber (Finite nx mx) (Infinity ny) = Some (\<not> ny)"
| "lessThan_jsnumber (Finite nx mx) (Finite ny my) =
     Some ((if nx then - int mx else int mx) < (if ny then - int my else int my))"

text \<open>
  The operators \<open>x >= y\<close> and \<open>x <= y\<close>: false when the underlying \<open>lessThan\<close> is true
  or undefined.
\<close>

definition ge_jsnumber :: "jsnumber \<Rightarrow> jsnumber \<Rightarrow> bool" where
  "ge_jsnumber x y = (lessThan_jsnumber x y = Some False)"

definition le_jsnumber :: "jsnumber \<Rightarrow> jsnumber \<Rightarrow> bool" where
  "le_jsnumber x y = (lessThan_jsnumber y x = Some False)"

text \<open>
  The Number value for a positive mathematical integer: round to nearest with 53
  significant bits, ties to even; a result of \<open>2 ^ 1024\<close> or more is infinite
  (\<open>None\<close>).
\<close>

fun bitLength :: "nat \<Rightarrow> nat" where
  "bitLength n = (if n = 0 then 0 else Suc (bitLength (n div 2)))"

declare bitLength.simps [simp del]

definition roundToDouble :: "nat \<Rightarrow> nat option" where
  "roundToDouble m =
     (if m < 2 ^ 53 then Some m
      else
        let e = bitLength m - 53;
            q = m div 2 ^ e;
            r = m mod 2 ^ e;
            half = 2 ^ (e - 1);
            q' = (if half < r \<or> (r = half \<and> odd q) then q + 1 else q);
            v = q' * 2 ^ e
        in if 2 ^ 1024 \<le> v then None else Some v)"

definition numberValue :: "bool \<Rightarrow> nat \<Rightarrow> jsnumber" where
  "numberValue negative m =
     (case roundToDouble m of
        None \<Rightarrow> Infinity negative
      | Some v \<Rightarrow> Finite negative v)"

subsection \<open>\<open>parseInt(string)\<close> with no radix argument\<close>

text \<open>
  Leading white space and line terminators are removed (\<open>TrimString\<close> at the start):
  TAB, LF, VT, FF, CR, SPACE, NBSP, the other space separators of Unicode, LS, PS and
  the byte order mark.
\<close>

definition isWhiteSpace :: "code_unit \<Rightarrow> bool" where
  "isWhiteSpace c \<longleftrightarrow>
     c \<in> {0x09, 0x0A, 0x0B, 0x0C, 0x0D, 0x20, 0xA0, 0x1680, 0x2028, 0x2029,
          0x202F, 0x205F, 0x3000, 0xFEFF}
     \<or> (0x2000 \<le> c \<and> c \<le> 0x200A)"

text \<open>The value of a code unit as a digit: \<open>0-9\<close>, then \<open>a-z\<close> or \<open>A-Z\<close> for 10 to 35.\<close>

definition digitValue :: "code_unit \<Rightarrow> nat option" where
  "digitValue c =
     (if 0x30 \<le> c \<and> c \<le> 0x39 then Some (unat c - 0x30)
      else if 0x61 \<le> c \<and> c \<le> 0x7A then Some (unat c - 0x61 + 10)
      else if 0x41 \<le> c \<and> c \<le> 0x5A then Some (unat c - 0x41 + 10)
      else None)"

definition isRadixDigit :: "nat \<Rightarrow> code_unit \<Rightarrow> bool" where
  "isRadixDigit R c = (case digitValue c of None \<Rightarrow> False | Some d \<Rightarrow> d < R)"

text \<open>The integer that a string of radix-\<open>R\<close> digits denotes.\<close>

definition radixValue :: "nat \<Rightarrow> jsstring \<Rightarrow> nat" where
  "radixValue R Z =
     foldl (\<lambda>acc c. case digitValue c of Some d \<Rightarrow> acc * R + d | None \<Rightarrow> acc) 0 Z"

text \<open>
  The steps of \<open>parseInt\<close>: trim, read the sign, strip a \<open>0x\<close> or \<open>0X\<close> prefix (radix 16,
  otherwise 10), take the longest prefix of digits, \<open>NaN\<close> when it is empty, a signed zero
  when it denotes zero, otherwise the Number value of the signed integer. The language
  lets an implementation replace the decimal digits after the 20th by zeros; the model
  rounds the exact integer. (The test against 0 and 5 is the same either way.)
\<close>

definition parseInt :: "jsstring \<Rightarrow> jsnumber" where
  "parseInt inputString =
     (let S = dropWhile isWhiteSpace inputString;
          negative = (S \<noteq> [] \<and> hd S = 0x2D);
          S = (if S \<noteq> [] \<and> (hd S = 0x2B \<or> hd S = 0x2D) then tl S else S);
          hex = (2 \<le> length S \<and> (take 2 S = str ''0x'' \<or> take 2 S = str ''0X''));
          R = (if hex then 16 else 10);
          S = (if hex then drop 2 S else S);
          Z = takeWhile (isRadixDigit R) S
      in if Z = [] then NaN
         else
           let mathInt = radixValue R Z
           in if mathInt = 0 then Finite negative 0 else numberValue negative mathInt)"

subsection \<open>Number to string, as a template literal converts it\<close>

fun decimalDigits :: "nat \<Rightarrow> jsstring" where
  "decimalDigits n =
     (if n < 10 then [of_nat (0x30 + n)]
      else decimalDigits (n div 10) @ [of_nat (0x30 + n mod 10)])"

declare decimalDigits.simps [simp del]

text \<open>
  \<open>Number::toString\<close> prints the decimal with the fewest significant digits among those
  whose Number value is the number printed. For an integer \<open>m\<close> such a decimal is a
  multiple of a power of ten: \<open>nearestMultiple m j\<close> is the multiple of \<open>10 ^ j\<close> next to
  \<open>m\<close> that still rounds to \<open>m\<close> (the closer of the two neighbours, the even one on a
  tie), and \<open>shortestDecimal\<close> tries the exponents from the largest down. Its result
  \<open>(s, n)\<close> is the decimal \<open>s * 10 ^ (n - k)\<close>, where \<open>k\<close> is the number of digits of \<open>s\<close>
  and \<open>n\<close> the number of digits of the decimal.
\<close>

definition nearestMultiple :: "nat \<Rightarrow> nat \<Rightarrow> nat option" where
  "nearestMultiple m j =
     (let p = 10 ^ j;
          lo = (m div p) * p;
          hi = lo + p;
          okLo = (0 < lo \<and> roundToDouble lo = Some m);
          okHi = (roundToDouble hi = Some m)
      in if okLo \<and> okHi then
           (if m - lo < hi - m \<or> (m - lo = hi - m \<and> even (lo div p))
            then Some lo else Some hi)
         else if okLo then Some lo
         else if okHi then Some hi
         else None)"

fun shortestDecimal :: "nat \<Rightarrow> nat \<Rightarrow> nat \<times> nat" where
  "shortestDecimal m 0 = (m, length (decimalDigits m))"
| "shortestDecimal m (Suc j) =
     (case nearestMultiple m (Suc j) of
        Some v \<Rightarrow> (v div 10 ^ Suc j, length (decimalDigits v))
      | None \<Rightarrow> shortestDecimal m j)"

text \<open>
  Up to 21 digits the decimal is written out, padded with zeros; beyond, in exponent
  notation (\<open>1e+21\<close>, \<open>1.2345678901234568e+29\<close>).
\<close>

definition positiveToString :: "nat \<Rightarrow> jsstring" where
  "positiveToString m =
     (let (s, n) = shortestDecimal m (length (decimalDigits m));
          ds = decimalDigits s;
          k = length ds
      in if n \<le> 21 then ds @ replicate (n - k) 0x30
         else if k = 1 then ds @ str ''e+'' @ decimalDigits (n - 1)
         else hd ds # str ''.'' @ tl ds @ str ''e+'' @ decimalDigits (n - 1))"

fun numberToString :: "jsnumber \<Rightarrow> jsstring" where
  "numberToString NaN = str ''NaN''"
| "numberToString (Finite negative m) =
     (if m = 0 then str ''0''
      else (if negative then str ''-'' else []) @ positiveToString m)"
| "numberToString (Infinity negative) =
     (if negative then str ''-Infinity'' else str ''Infinity'')"

section \<open>Events\<close>

text \<open>
  What the handlers read from a DOM event: the \<open>name\<close>, \<open>type\<close>, \<open>value\<close> and
  \<open>checked\<close> properties of \<open>event.target\<close>.
\<close>

record event_target =
  target_name :: jsstring
  target_type :: jsstring
  target_value :: jsstring
  target_checked :: bool

record event =
  target :: event_target

text \<open>The event of an input element whose attributes and content are ASCII.\<close>

definition inputEvent :: "string \<Rightarrow> string \<Rightarrow> string \<Rightarrow> bool \<Rightarrow> event" where
  "inputEvent n t v c =
     \<lparr>target = \<lparr>target_name = str n, target_type = str t, target_value = str v,
                 target_checked = c\<rparr>\<rparr>"

text \<open>
  A handler reads the state of the render it was created in and requests the next state
  with the setters; the model is a function from that state to the next one. Events are
  handled one at a time, each after the render which follows the one before, so a
  sequence of events is a left fold of the handler.
\<close>

section \<open>\<open>src/components/Form.js\<close>: the bounded numeric input\<close>

text \<open>
  The component's own state: \<open>useState(0)\<close> and \<open>useState(null)\<close>. The record is
  extensible; whatever else an integrating component keeps is the \<open>more\<close> part, which the
  handler has no setter for.
\<close>

record Form_state =
  number :: jsnumber
  isInvalidNumber :: "jsstring option"

definition Form_initial :: Form_state where
  "Form_initial = \<lparr>number = Finite False 0, isInvalidNumber = None\<rparr>"

text \<open>
  \<^verbatim>\<open>
  function handleNumberChange(e) {
    const newNumber = parseInt(e.target.value)
    if (newNumber >= 0 && newNumber <= 5) {
      setNumber(newNumber)
      setIsInvalidNumber(null)
    } else {
      setIsInvalidNumber(`${newNumber} is not a valid number!`)
    }
  }
  \<close>
\<close>

definition handleNumberChange :: "'a Form_state_scheme \<Rightarrow> event \<Rightarrow> 'a Form_state_scheme" where
  "handleNumberChange s e =
     (let newNumber = parseInt (target_value (target e))
      in if ge_jsnumber newNumber (Finite False 0) \<and> le_jsnumber newNumber (Finite False 5)
         then s\<lparr>number := newNumber, isInvalidNumber := None\<rparr>
         else s\<lparr>isInvalidNumber :=
                  Some (numberToString newNumber @ str '' is not a valid number!'')\<rparr>)"

section \<open>\<open>README.md\<close>: the generic change handler\<close>

text \<open>
  The state of the final \<open>Form\<close> is one object, \<open>formData\<close>, whose properties hold a string
  (text inputs) or a boolean (the checkbox). An object is a finite map from property
  names to values; the order in which properties are enumerated is not modelled.
\<close>

datatype jsvalue = StringValue jsstring | BooleanValue bool

type_synonym object = "jsstring \<rightharpoonup> jsvalue"

definition formData_initial :: object where
  "formData_initial =
     [str ''firstName'' \<mapsto> StringValue (str ''John''),
      str ''lastName'' \<mapsto> StringValue (str ''Henry''),
      str ''admin'' \<mapsto> BooleanValue False]"

text \<open>
  \<^verbatim>\<open>
  function handleChange(event) {
    const name = event.target.name;
    let value = event.target.value;
    if (event.target.type === "checkbox") {
      value = event.target.checked;
    }
    setFormData({ ...formData, [name]: value });
  }
  \<close>
  The spread copies every property of \<open>formData\<close> into a new object; the computed key
  then writes \<open>name\<close>, over the copy of the old property when there is one.
\<close>

definition handleChange :: "object \<Rightarrow> event \<Rightarrow> object" where
  "handleChange formData event =
     (let name = target_name (target event);
          value = StringValue (target_value (target event));
          value = (if target_type (target event) = str ''checkbox''
                   then BooleanValue (target_checked (target event)) else value)
      in formData(name \<mapsto> value))"

section \<open>\<open>README.md\<close>: submitting the form\<close>

text \<open>
  The form of the section on submission keeps \<open>firstName\<close> and \<open>lastName\<close> in two state
  variables. The record is extensible: a component with more state than these two (a
  checkbox, the list of submissions) has it in the \<open>more\<close> part.
\<close>

record NameForm_state =
  firstName :: jsstring
  lastName :: jsstring

definition handleFirstNameChange :: "'a NameForm_state_scheme \<Rightarrow> event \<Rightarrow> 'a NameForm_state_scheme" where
  "handleFirstNameChange s event = s\<lparr>firstName := target_value (target event)\<rparr>"

definition handleLastNameChange :: "'a NameForm_state_scheme \<Rightarrow> event \<Rightarrow> 'a NameForm_state_scheme" where
  "handleLastNameChange s event = s\<lparr>lastName := target_value (target event)\<rparr>"

text \<open>
  What a handler does to the world outside the component's state, in the order of the
  calls: \<open>event.preventDefault()\<close> and the callback \<open>props.sendFormDataSomewhere\<close> with
  its argument.
\<close>

datatype call = PreventDefault | SendFormDataSomewhere object

text \<open>
  \<^verbatim>\<open>
  function handleSubmit(event) {
    event.preventDefault();
    const formData = { firstName: firstName, lastName: lastName };
    props.sendFormDataSomewhere(formData);
    setFirstName("");
    setLastName("");
  }
  \<close>
  The result is the list of outside calls and the next state (the callback is taken to
  return).
\<close>

definition handleSubmit :: "'a NameForm_state_scheme \<Rightarrow> call list \<times> 'a NameForm_state_scheme" where
  "handleSubmit s =
     (let formData = [str ''firstName'' \<mapsto> StringValue (firstName s),
                      str ''lastName'' \<mapsto> StringValue (lastName s)]
      in ([PreventDefault, SendFormDataSomewhere formData],
          s\<lparr>firstName := [], lastName := []\<rparr>))"

text \<open>A form that also has a checkbox, as the final \<open>Form\<close> of the lesson has \<open>admin\<close>.\<close>

record AdminForm_state = NameForm_state +
  admin :: bool

subsection \<open>The form that lists its submissions\<close>

text \<open>
  Objects live in a heap and are reached by reference: the object at address \<open>a\<close> is the
  \<open>a\<close>-th cell, and an object literal allocates the next cell. The array
  \<open>submittedData\<close> holds references to the submitted objects; it is only ever replaced
  by a new array (\<open>[...submittedData, formData]\<close>), never written to.
\<close>

type_synonym address = nat
type_synonym heap = "object list"

definition allocate :: "heap \<Rightarrow> object \<Rightarrow> address \<times> heap" where
  "allocate h ob = (length h, h @ [ob])"

definition dereference :: "heap \<Rightarrow> address \<Rightarrow> object option" where
  "dereference h a = (if a < length h then Some (h ! a) else None)"

record SubmissionsForm_state = NameForm_state +
  submittedData :: "address list"

text \<open>
  \<^verbatim>\<open>
  function handleSubmit(event) {
    event.preventDefault();
    const formData = { firstName: firstName, lastName: lastName };
    const dataArray = [...submittedData, formData];
    setSubmittedData(dataArray);
    setFirstName("");
    setLastName("");
  }
  \<close>
\<close>

definition handleSubmit_submissions ::
  "heap \<times> 'a SubmissionsForm_state_scheme
   \<Rightarrow> call list \<times> heap \<times> 'a SubmissionsForm_state_scheme" where
  "handleSubmit_submissions hs =
     (let (h, s) = hs;
          (formData, h) = allocate h [str ''firstName'' \<mapsto> StringValue (firstName s),
                                      str ''lastName'' \<mapsto> StringValue (lastName s)];
          dataArray = submittedData s @ [formData]
      in ([PreventDefault],
          h, s\<lparr>submittedData := dataArray, firstName := [], lastName := []\<rparr>))"

text \<open>
  The events the form's JSX binds: \<open>onChange\<close> of the two inputs and \<open>onSubmit\<close> of the
  form.
\<close>

datatype form_event = FirstNameChange event | LastNameChange event | Submit

fun dispatch ::
  "heap \<times> 'a SubmissionsForm_state_scheme \<Rightarrow> form_event
   \<Rightarrow> heap \<times> 'a SubmissionsForm_state_scheme" where
  "dispatch (h, s) (FirstNameChange event) = (h, handleFirstNameChange s event)"
| "dispatch (h, s) (LastNameChange event) = (h, handleLastNameChange s event)"
| "dispatch (h, s) Submit = snd (handleSubmit_submissions (h, s))"

section \<open>Evaluation on concrete inputs\<close>

lemmas parseInt_eval = parseInt_def str_def isWhiteSpace_def isRadixDigit_def digitValue_def
  radixValue_def numberValue_def roundToDouble_def bitLength.simps Let_def

lemmas numberToString_eval = positiveToString_def nearestMultiple_def roundToDouble_def
  decimalDigits.simps str_def bitLength.simps Let_def

lemma str_append: "str a @ str b = str (a @ b)"
  by (simp add: str_def)

lemma parseInt_5: "parseInt (str ''5'') = Finite False 5"
  by (simp add: parseInt_eval)

lemma parseInt_9: "parseInt (str ''9'') = Finite False 9"
  by (simp add: parseInt_eval)

lemma parseInt_abc: "parseInt (str ''abc'') = NaN"
  by (simp add: parseInt_eval)

lemma positiveToString_9: "positiveToString 9 = str ''9''"
  by (simp add: numberToString_eval)

text \<open>
  What \<open>parseInt\<close> makes of some contents: leading white space and a trailing unit, a
  negative zero, a hexadecimal prefix, a fraction, the empty string, and an integer that
  is not a double (\<open>2 ^ 53 + 1\<close>, a tie, rounded to even).
\<close>

lemma parseInt_examples:
  "parseInt (str ''  42px'') = Finite False 42"
  "parseInt (str ''-0'') = Finite True 0"
  "parseInt (str ''0x1F'') = Finite False 31"
  "parseInt (str ''3.9'') = Finite False 3"
  "parseInt (str ''5e3'') = Finite False 5"
  "parseInt [] = NaN"
  "parseInt (str ''9007199254740993'') = Finite False 9007199254740992"
  by (simp_all add: parseInt_eval)

text \<open>Twenty-one digits are written out; twenty-two are not.\<close>

lemma parseInt_1e21: "parseInt (str ''1000000000000000000000'') = Finite False 1000000000000000000000"
  by (simp add: parseInt_eval)

lemma positiveToString_examples:
  "positiveToString 100000000000000000000 = str ''100000000000000000000''"
  "positiveToString 1000000000000000000000 = str ''1e+21''"
  by (simp_all add: numberToString_eval)

section \<open>The bounded numeric input\<close>

text \<open>
  The test \<open>newNumber >= 0 && newNumber <= 5\<close> holds exactly when \<open>newNumber\<close> is a
  finite number whose mathematical value is between 0 and 5; \<open>NaN\<close> and the infinities
  fail it, \<open>-0\<close> passes it.
\<close>

lemma range_check_iff:
  "ge_jsnumber x (Finite False 0) \<and> le_jsnumber x (Finite False 5)
   \<longleftrightarrow> (\<exists>i. mathematicalValue x = Some i \<and> 0 \<le> i \<and> i \<le> 5)"
  by (cases x) (auto simp: ge_jsnumber_def le_jsnumber_def mathematicalValue_def)

lemma handleNumberChange_cases:
  fixes s :: "'a Form_state_scheme"
  shows "handleNumberChange s e =
     (if \<exists>i. mathematicalValue (parseInt (target_value (target e))) = Some i \<and> 0 \<le> i \<and> i \<le> 5
      then s\<lparr>number := parseInt (target_value (target e)), isInvalidNumber := None\<rparr>
      else s\<lparr>isInvalidNumber :=
               Some (numberToString (parseInt (target_value (target e)))
                     @ str '' is not a valid number!'')\<rparr>)"
  unfolding handleNumberChange_def Let_def range_check_iff ..

lemma scenario_B_5:
  "handleNumberChange Form_initial (inputEvent [] ''number'' ''5'' False)
   = \<lparr>number = Finite False 5, isInvalidNumber = None\<rparr>"
  by (simp add: handleNumberChange_cases inputEvent_def parseInt_5 mathematicalValue_def
      Form_initial_def)

lemma scenario_B_9:
  "handleNumberChange \<lparr>number = Finite False 5, isInvalidNumber = None\<rparr>
     (inputEvent [] ''number'' ''9'' False)
   = \<lparr>number = Finite False 5, isInvalidNumber = Some (str ''9 is not a valid number!'')\<rparr>"
  by (simp add: handleNumberChange_cases inputEvent_def parseInt_9 mathematicalValue_def
      positiveToString_9 str_append)

text \<open>
  A negative zero passes the test and is stored; a content of twenty-two digits is
  rejected with the parsed number in the message, in exponent notation.
\<close>

lemma negative_zero_is_accepted:
  "handleNumberChange Form_initial (inputEvent [] ''number'' ''-0'' False)
   = \<lparr>number = Finite True 0, isInvalidNumber = None\<rparr>"
  by (simp add: handleNumberChange_cases inputEvent_def parseInt_examples
      mathematicalValue_def Form_initial_def)

lemma message_has_the_parsed_number:
  "handleNumberChange Form_initial (inputEvent [] ''number'' ''1000000000000000000000'' False)
   = \<lparr>number = Finite False 0,
      isInvalidNumber = Some (str ''1e+21 is not a valid number!'')\<rparr>"
  by (simp add: handleNumberChange_cases inputEvent_def parseInt_1e21 mathematicalValue_def
      positiveToString_examples str_append Form_initial_def)

text \<open>
  C1. A change of the numeric input is accepted, that is, leaves no message
  (\<open>isInvalidNumber\<close> is \<open>null\<close>), if and only if \<open>parseInt\<close> of the input's content is an
  integer between 0 and 5 inclusive. When it is accepted, the stored number is exactly
  the parsed one. When parsing fails (\<open>NaN\<close>), the change is rejected: a message is
  set and the stored number stays.
\<close>

theorem handleNumberChange_accepted_iff_in_range:
  fixes s :: "'a Form_state_scheme"
  shows "let newNumber = parseInt (target_value (target e));
             s' = handleNumberChange s e
         in (isInvalidNumber s' = None
               \<longleftrightarrow> (\<exists>i. mathematicalValue newNumber = Some i \<and> 0 \<le> i \<and> i \<le> 5))
          \<and> (isInvalidNumber s' = None \<longrightarrow> number s' = newNumber)
          \<and> (newNumber = NaN \<longrightarrow> isInvalidNumber s' \<noteq> None \<and> number s' = number s)"
  by (auto simp: Let_def handleNumberChange_cases mathematicalValue_def)

theorem handleNumberChange_accepted_iff_in_range_witness:
  "isInvalidNumber (handleNumberChange Form_initial (inputEvent [] ''number'' ''5'' False)) = None
   \<and> number (handleNumberChange Form_initial (inputEvent [] ''number'' ''5'' False))
       = Finite False 5
   \<and> parseInt (str ''abc'') = NaN
   \<and> isInvalidNumber (handleNumberChange Form_initial (inputEvent [] ''number'' ''abc'' False))
       \<noteq> None"
  using
    handleNumberChange_accepted_iff_in_range
      [of "inputEvent [] ''number'' ''5'' False" Form_initial]
    handleNumberChange_accepted_iff_in_range
      [of "inputEvent [] ''number'' ''abc'' False" Form_initial]
  by (simp add: Let_def inputEvent_def parseInt_5 parseInt_abc mathematicalValue_def)

text \<open>
  C2. When the parsed content is not an integer between 0 and 5, the change leaves the
  stored number as it was, leaves every other part of the state as it was, and records
  the message made of the parsed number as a template literal prints it, followed by
  \<open>" is not a valid number!"\<close>; the message is not empty.
\<close>

theorem handleNumberChange_rejected_keeps_number:
  fixes s :: "'a Form_state_scheme"
  assumes "\<not> (\<exists>i. mathematicalValue (parseInt (target_value (target e))) = Some i
                \<and> 0 \<le> i \<and> i \<le> 5)"
  shows "number (handleNumberChange s e) = number s
       \<and> Form_state.more (handleNumberChange s e) = Form_state.more s
       \<and> isInvalidNumber (handleNumberChange s e)
           = Some (numberToString (parseInt (target_value (target e)))
                   @ str '' is not a valid number!'')
       \<and> numberToString (parseInt (target_value (target e))) @ str '' is not a valid number!''
           \<noteq> []"
  using assms by (simp add: handleNumberChange_cases str_def)

theorem handleNumberChange_rejected_keeps_number_witness:
  "\<not> (\<exists>i. mathematicalValue (parseInt (str ''9'')) = Some i \<and> 0 \<le> i \<and> i \<le> 5)
   \<and> number (handleNumberChange \<lparr>number = Finite False 5, isInvalidNumber = None\<rparr>
               (inputEvent [] ''number'' ''9'' False)) = Finite False 5
   \<and> isInvalidNumber (handleNumberChange \<lparr>number = Finite False 5, isInvalidNumber = None\<rparr>
               (inputEvent [] ''number'' ''9'' False))
       = Some (str ''9 is not a valid number!'')"
proof -
  have rejected:
    "\<not> (\<exists>i. mathematicalValue
              (parseInt (target_value (target (inputEvent [] ''number'' ''9'' False)))) = Some i
           \<and> 0 \<le> i \<and> i \<le> 5)"
    by (simp add: inputEvent_def parseInt_9 mathematicalValue_def)
  show ?thesis
    using rejected
      handleNumberChange_rejected_keeps_number
        [OF rejected, of "\<lparr>number = Finite False 5, isInvalidNumber = None\<rparr>"]
    by (simp add: inputEvent_def parseInt_9 positiveToString_9 str_append)
qed

text \<open>
  C10. When \<open>parseInt\<close> of the content is \<open>NaN\<close>, the message is literally
  \<open>"NaN is not a valid number!"\<close>: the parsed value is interpolated, not the text that
  was typed.
\<close>

theorem handleNumberChange_NaN_message:
  fixes s :: "'a Form_state_scheme"
  assumes "parseInt (target_value (target e)) = NaN"
  shows "isInvalidNumber (handleNumberChange s e) = Some (str ''NaN is not a valid number!'')"
  using assms by (simp add: handleNumberChange_cases mathematicalValue_def str_append)

theorem handleNumberChange_NaN_message_witness:
  "parseInt (str ''abc'') = NaN
   \<and> isInvalidNumber (handleNumberChange Form_initial (inputEvent [] ''number'' ''abc'' False))
       = Some (str ''NaN is not a valid number!'')"
proof -
  have nan: "parseInt (target_value (target (inputEvent [] ''number'' ''abc'' False))) = NaN"
    by (simp add: inputEvent_def parseInt_abc)
  show ?thesis
    using handleNumberChange_NaN_message [OF nan, of Form_initial]
    by (simp add: parseInt_abc)
qed

subsection \<open>The numeric field as a state machine\<close>

lemma number_in_range_preserved:
  fixes s :: "'a Form_state_scheme"
  assumes "\<exists>i. mathematicalValue (number s) = Some i \<and> 0 \<le> i \<and> i \<le> 5"
  shows "\<exists>i. mathematicalValue (number (handleNumberChange s e)) = Some i \<and> 0 \<le> i \<and> i \<le> 5"
  using assms by (simp add: handleNumberChange_cases)

lemma number_in_range_reachable:
  fixes s :: "'a Form_state_scheme"
  assumes "\<exists>i. mathematicalValue (number s) = Some i \<and> 0 \<le> i \<and> i \<le> 5"
  shows "\<exists>i. mathematicalValue (number (foldl handleNumberChange s events)) = Some i
           \<and> 0 \<le> i \<and> i \<le> 5"
  using assms
proof (induction events arbitrary: s)
  case Nil
  then show ?case by simp
next
  case (Cons e events)
  have "\<exists>i. mathematicalValue (number (handleNumberChange s e)) = Some i \<and> 0 \<le> i \<and> i \<le> 5"
    using Cons.prems by (rule number_in_range_preserved)
  then show ?case using Cons.IH by simp
qed

lemma Form_initial_in_range:
  "\<exists>i. mathematicalValue (number Form_initial) = Some i \<and> 0 \<le> i \<and> i \<le> 5"
  by (simp add: Form_initial_def mathematicalValue_def)

text \<open>
  C5. The numeric field is in one of two kinds of state: valid (no message) or invalid
  (a message). The initial state is valid with number 0. From it, the stored number is
  between 0 and 5 after every sequence of change events. Every transition either stores
  the parsed number, which is then between 0 and 5, and clears the message, or keeps the
  stored number and sets a non-empty message. Every transition preserves "the stored
  number is between 0 and 5".
\<close>

theorem numeric_field_state_machine:
  "number Form_initial = Finite False 0 \<and> isInvalidNumber Form_initial = None
   \<and> (\<forall>events. \<exists>i. mathematicalValue (number (foldl handleNumberChange Form_initial events)) = Some i
        \<and> 0 \<le> i \<and> i \<le> 5)
   \<and> (\<forall>(s :: 'a Form_state_scheme) e.
        (isInvalidNumber (handleNumberChange s e) = None
           \<and> number (handleNumberChange s e) = parseInt (target_value (target e))
           \<and> (\<exists>i. mathematicalValue (number (handleNumberChange s e)) = Some i
                  \<and> 0 \<le> i \<and> i \<le> 5))
        \<or> (number (handleNumberChange s e) = number s
           \<and> (\<exists>message. isInvalidNumber (handleNumberChange s e) = Some message
                  \<and> message \<noteq> [])))
   \<and> (\<forall>(s :: 'a Form_state_scheme) e.
        (\<exists>i. mathematicalValue (number s) = Some i \<and> 0 \<le> i \<and> i \<le> 5)
        \<longrightarrow> (\<exists>i. mathematicalValue (number (handleNumberChange s e)) = Some i
                 \<and> 0 \<le> i \<and> i \<le> 5))"
proof (intro conjI allI impI)
  show "number Form_initial = Finite False 0" and "isInvalidNumber Form_initial = None"
    by (simp_all add: Form_initial_def)
next
  fix events
  show "\<exists>i. mathematicalValue (number (foldl handleNumberChange Form_initial events)) = Some i
        \<and> 0 \<le> i \<and> i \<le> 5"
    using Form_initial_in_range by (rule number_in_range_reachable)
next
  fix s :: "'a Form_state_scheme" and e
  show "(isInvalidNumber (handleNumberChange s e) = None
           \<and> number (handleNumberChange s e) = parseInt (target_value (target e))
           \<and> (\<exists>i. mathematicalValue (number (handleNumberChange s e)) = Some i
                  \<and> 0 \<le> i \<and> i \<le> 5))
        \<or> (number (handleNumberChange s e) = number s
           \<and> (\<exists>message. isInvalidNumber (handleNumberChange s e) = Some message
                  \<and> message \<noteq> []))"
    by (simp add: handleNumberChange_cases str_def)
next
  fix s :: "'a Form_state_scheme" and e
  assume "\<exists>i. mathematicalValue (number s) = Some i \<and> 0 \<le> i \<and> i \<le> 5"
  then show "\<exists>i. mathematicalValue (number (handleNumberChange s e)) = Some i
               \<and> 0 \<le> i \<and> i \<le> 5"
    by (rule number_in_range_preserved)
qed

theorem numeric_field_state_machine_witness:
  "foldl handleNumberChange Form_initial
       [inputEvent [] ''number'' ''5'' False, inputEvent [] ''number'' ''9'' False]
     = \<lparr>number = Finite False 5, isInvalidNumber = Some (str ''9 is not a valid number!'')\<rparr>
   \<and> (\<exists>i. mathematicalValue (number Form_initial) = Some i \<and> 0 \<le> i \<and> i \<le> 5)
   \<and> (\<exists>i. mathematicalValue
            (number (handleNumberChange Form_initial (inputEvent [] ''number'' ''9'' False)))
          = Some i
          \<and> 0 \<le> i \<and> i \<le> 5)"
proof -
  have init: "\<exists>i. mathematicalValue (number Form_initial) = Some i \<and> 0 \<le> i \<and> i \<le> 5"
    by (rule Form_initial_in_range)
  have step:
    "\<exists>i. mathematicalValue
            (number (handleNumberChange Form_initial (inputEvent [] ''number'' ''9'' False)))
          = Some i
          \<and> 0 \<le> i \<and> i \<le> 5"
    using numeric_field_state_machine [where 'a = unit] init by blast
  show ?thesis using init step by (simp add: scenario_B_5 scenario_B_9)
qed

section \<open>The generic change handler\<close>

lemma handleChange_apply:
  "handleChange formData event k =
     (if k = target_name (target event)
      then Some (if target_type (target event) = str ''checkbox''
                 then BooleanValue (target_checked (target event))
                 else StringValue (target_value (target event)))
      else formData k)"
  by (simp add: handleChange_def Let_def)

lemma dom_handleChange:
  "dom (handleChange formData event) = insert (target_name (target event)) (dom formData)"
  by (simp add: handleChange_def Let_def)

lemma dom_foldl_handleChange:
  "dom (foldl handleChange formData events)
   = dom formData \<union> (\<lambda>e. target_name (target e)) ` set events"
  by (induction events arbitrary: formData) (auto simp: dom_handleChange)

text \<open>
  C3. After a sequence of change events whose names are all properties of \<open>formData\<close>,
  a property that some event of the sequence names holds the value of the last such event
  (the \<open>checked\<close> flag of a checkbox, the \<open>value\<close> of any other input), every other
  property holds its initial value, and the object has the properties it had.
\<close>

theorem handleChange_sequence_last_write:
  assumes "\<forall>e \<in> set events. target_name (target e) \<in> dom formData"
  shows "foldl handleChange formData events k =
           (case find (\<lambda>e. target_name (target e) = k) (rev events) of
              None \<Rightarrow> formData k
            | Some e \<Rightarrow>
                Some (if target_type (target e) = str ''checkbox''
                      then BooleanValue (target_checked (target e))
                      else StringValue (target_value (target e))))
       \<and> dom (foldl handleChange formData events) = dom formData"
proof
  show "foldl handleChange formData events k =
           (case find (\<lambda>e. target_name (target e) = k) (rev events) of
              None \<Rightarrow> formData k
            | Some e \<Rightarrow>
                Some (if target_type (target e) = str ''checkbox''
                      then BooleanValue (target_checked (target e))
                      else StringValue (target_value (target e))))"
  proof (induction events rule: rev_induct)
    case Nil
    show ?case by simp
  next
    case (snoc e events)
    show ?case
    proof (cases "target_name (target e) = k")
      case True
      then show ?thesis by (simp add: handleChange_apply)
    next
      case False
      then have "foldl handleChange formData (events @ [e]) k
                 = foldl handleChange formData events k"
        by (simp add: handleChange_apply)
      with snoc False show ?thesis by simp
    qed
  qed
next
  show "dom (foldl handleChange formData events) = dom formData"
    using assms by (auto simp: dom_foldl_handleChange)
qed

theorem handleChange_sequence_last_write_witness:
  "str ''firstName'' \<in> dom formData_initial
   \<and> str ''admin'' \<in> dom formData_initial
   \<and> foldl handleChange formData_initial
        [inputEvent ''firstName'' ''text'' ''Johns'' False,
         inputEvent ''admin'' ''checkbox'' ''on'' True,
         inputEvent ''firstName'' ''text'' ''Johnso'' False] (str ''firstName'')
      = Some (StringValue (str ''Johnso''))
   \<and> foldl handleChange formData_initial
        [inputEvent ''firstName'' ''text'' ''Johns'' False,
         inputEvent ''admin'' ''checkbox'' ''on'' True,
         inputEvent ''firstName'' ''text'' ''Johnso'' False] (str ''lastName'')
      = Some (StringValue (str ''Henry''))"
proof -
  let ?events = "[inputEvent ''firstName'' ''text'' ''Johns'' False,
                  inputEvent ''admin'' ''checkbox'' ''on'' True,
                  inputEvent ''firstName'' ''text'' ''Johnso'' False]"
  have present: "\<forall>e \<in> set ?events. target_name (target e) \<in> dom formData_initial"
    by (simp add: formData_initial_def inputEvent_def str_def)
  show ?thesis
    using present
      handleChange_sequence_last_write [OF present, of "str ''firstName''"]
      handleChange_sequence_last_write [OF present, of "str ''lastName''"]
    by (simp add: formData_initial_def inputEvent_def str_def)
qed

text \<open>
  C4. One change event whose name is a property of \<open>formData\<close> gives that property the
  value read from the event (the \<open>checked\<close> flag of a checkbox, the \<open>value\<close> of any other
  input), leaves every other property with the value it had, and adds or removes no
  property.
\<close>

theorem handleChange_replaces_one_entry:
  assumes "target_name (target event) \<in> dom formData"
  shows "handleChange formData event (target_name (target event))
           = Some (if target_type (target event) = str ''checkbox''
                   then BooleanValue (target_checked (target event))
                   else StringValue (target_value (target event)))
       \<and> (\<forall>k. k \<noteq> target_name (target event) \<longrightarrow> handleChange formData event k = formData k)
       \<and> dom (handleChange formData event) = dom formData"
  using assms by (auto simp: handleChange_apply dom_handleChange)

theorem handleChange_replaces_one_entry_witness:
  "target_name (target (inputEvent ''admin'' ''checkbox'' ''on'' True)) \<in> dom formData_initial
   \<and> handleChange formData_initial (inputEvent ''admin'' ''checkbox'' ''on'' True) (str ''admin'')
       = Some (BooleanValue True)
   \<and> handleChange formData_initial (inputEvent ''admin'' ''checkbox'' ''on'' True)
       (str ''firstName'')
       = Some (StringValue (str ''John''))
   \<and> handleChange formData_initial (inputEvent ''admin'' ''checkbox'' ''on'' True)
       (str ''lastName'')
       = Some (StringValue (str ''Henry''))"
proof -
  have present:
    "target_name (target (inputEvent ''admin'' ''checkbox'' ''on'' True)) \<in> dom formData_initial"
    by (simp add: formData_initial_def inputEvent_def str_def)
  show ?thesis
    using present handleChange_replaces_one_entry [OF present]
    by (simp add: formData_initial_def inputEvent_def str_def)
qed

text \<open>
  C8. Handling the same change event twice in a row gives the same \<open>formData\<close> as
  handling it once.
\<close>

theorem handleChange_idempotent:
  "handleChange (handleChange formData event) event = handleChange formData event"
  by (simp add: handleChange_def Let_def)

text \<open>
  C9. A change event whose name is not a property of \<open>formData\<close> adds a property of that
  name with the value read from the event and leaves every property that was there with
  its value; the handler has no failing path.
\<close>

theorem handleChange_unknown_name_inserts:
  assumes "target_name (target event) \<notin> dom formData"
  shows "dom (handleChange formData event) = insert (target_name (target event)) (dom formData)
       \<and> handleChange formData event (target_name (target event))
           = Some (if target_type (target event) = str ''checkbox''
                   then BooleanValue (target_checked (target event))
                   else StringValue (target_value (target event)))
       \<and> (\<forall>k \<in> dom formData. handleChange formData event k = formData k)"
  using assms by (auto simp: handleChange_apply dom_handleChange)

theorem handleChange_unknown_name_inserts_witness:
  "target_name (target (inputEvent ''email'' ''text'' ''a@b'' False)) \<notin> dom formData_initial
   \<and> handleChange formData_initial (inputEvent ''email'' ''text'' ''a@b'' False) (str ''email'')
       = Some (StringValue (str ''a@b''))
   \<and> handleChange formData_initial (inputEvent ''email'' ''text'' ''a@b'' False) (str ''admin'')
       = Some (BooleanValue False)"
proof -
  have absent:
    "target_name (target (inputEvent ''email'' ''text'' ''a@b'' False)) \<notin> dom formData_initial"
    by (simp add: formData_initial_def inputEvent_def str_def)
  show ?thesis
    using absent handleChange_unknown_name_inserts [OF absent]
    by (simp add: formData_initial_def inputEvent_def str_def)
qed

section \<open>Submission\<close>

text \<open>
  C7. Submitting with \<open>firstName\<close> \<open>"A"\<close> and \<open>lastName\<close> \<open>"B"\<close>: the handler calls
  \<open>preventDefault\<close> first, then the callback with exactly the object
  \<open>{firstName: "A", lastName: "B"}\<close>; afterwards \<open>firstName\<close> and \<open>lastName\<close> are the
  empty string and the rest of the state is what it was.
\<close>

theorem handleSubmit_sends_then_resets:
  fixes s :: "'a NameForm_state_scheme"
  assumes "firstName s = str ''A''" and "lastName s = str ''B''"
  shows "fst (handleSubmit s)
           = [PreventDefault,
              SendFormDataSomewhere [str ''firstName'' \<mapsto> StringValue (str ''A''),
                                     str ''lastName'' \<mapsto> StringValue (str ''B'')]]
       \<and> firstName (snd (handleSubmit s)) = []
       \<and> lastName (snd (handleSubmit s)) = []
       \<and> NameForm_state.more (snd (handleSubmit s)) = NameForm_state.more s"
  using assms by (simp add: handleSubmit_def Let_def)

theorem handleSubmit_sends_then_resets_witness:
  "firstName \<lparr>firstName = str ''A'', lastName = str ''B'', admin = True\<rparr> = str ''A''
   \<and> lastName \<lparr>firstName = str ''A'', lastName = str ''B'', admin = True\<rparr> = str ''B''
   \<and> handleSubmit \<lparr>firstName = str ''A'', lastName = str ''B'', admin = True\<rparr>
       = ([PreventDefault,
           SendFormDataSomewhere [str ''firstName'' \<mapsto> StringValue (str ''A''),
                                  str ''lastName'' \<mapsto> StringValue (str ''B'')]],
          \<lparr>firstName = [], lastName = [], admin = True\<rparr>)"
proof -
  let ?s = "\<lparr>firstName = str ''A'', lastName = str ''B'', admin = True\<rparr>"
  have first: "firstName ?s = str ''A''" and last: "lastName ?s = str ''B''"
    by simp_all
  show ?thesis
    using handleSubmit_sends_then_resets [OF first last]
    by (simp add: handleSubmit_def Let_def)
qed

subsection \<open>The snapshot in the list of submissions\<close>

lemma dereference_append:
  "a < length h \<Longrightarrow> dereference (h @ cells) a = dereference h a"
  by (simp add: dereference_def nth_append)

lemma handleSubmit_submissions_result:
  fixes s :: "'a SubmissionsForm_state_scheme"
  shows "handleSubmit_submissions (h, s) =
     ([PreventDefault],
      h @ [[str ''firstName'' \<mapsto> StringValue (firstName s),
            str ''lastName'' \<mapsto> StringValue (lastName s)]],
      s\<lparr>submittedData := submittedData s @ [length h], firstName := [], lastName := []\<rparr>)"
  by (simp add: handleSubmit_submissions_def allocate_def Let_def)

text \<open>No handler writes to a cell of the heap or to an element of the array: both grow.\<close>

lemma dispatch_extends:
  fixes s :: "'a SubmissionsForm_state_scheme"
  shows "\<exists>cells refs. fst (dispatch (h, s) ev) = h @ cells
           \<and> submittedData (snd (dispatch (h, s) ev)) = submittedData s @ refs"
  by (cases ev)
    (simp_all add: handleSubmit_submissions_result handleFirstNameChange_def
      handleLastNameChange_def)

lemma foldl_dispatch_extends:
  fixes s :: "'a SubmissionsForm_state_scheme"
  shows "\<exists>cells refs. fst (foldl dispatch (h, s) later) = h @ cells
           \<and> submittedData (snd (foldl dispatch (h, s) later)) = submittedData s @ refs"
proof (induction later arbitrary: h s)
  case Nil
  show ?case by simp
next
  case (Cons ev later)
  obtain h1 s1 where step: "dispatch (h, s) ev = (h1, s1)"
    by (cases "dispatch (h, s) ev")
  obtain cells1 refs1 where one: "h1 = h @ cells1" "submittedData s1 = submittedData s @ refs1"
    using dispatch_extends [of h s ev] step by auto
  obtain cells2 refs2 where rest:
    "fst (foldl dispatch (h1, s1) later) = h1 @ cells2"
    "submittedData (snd (foldl dispatch (h1, s1) later)) = submittedData s1 @ refs2"
    using Cons.IH [of h1 s1] by auto
  show ?case
    using step one rest by simp
qed

text \<open>
  Two submissions with typing between them, from an empty heap: the first object is at
  address 0 and still holds \<open>A\<close> and \<open>B\<close> after the second submission.
\<close>

lemma two_submissions:
  "foldl dispatch ([], \<lparr>firstName = str ''A'', lastName = str ''B'', submittedData = []\<rparr>)
     [Submit, FirstNameChange (inputEvent [] ''text'' ''C'' False), Submit]
   = ([[str ''firstName'' \<mapsto> StringValue (str ''A''),
        str ''lastName'' \<mapsto> StringValue (str ''B'')],
       [str ''firstName'' \<mapsto> StringValue (str ''C''),
        str ''lastName'' \<mapsto> StringValue []]],
      \<lparr>firstName = [], lastName = [], submittedData = [0, 1]\<rparr>)"
  by (simp add: handleSubmit_submissions_result handleFirstNameChange_def inputEvent_def)

text \<open>
  C6. The object that a submission appends to \<open>submittedData\<close> has exactly the
  \<open>firstName\<close> and \<open>lastName\<close> of the state at the submission. It is a new object: its
  address was not allocated before, so nothing that existed refers to it. Whatever events
  the form handles later, the object at that address stays as it was stored, and the
  array keeps the reference at the same index.
\<close>

theorem submitted_snapshot_is_independent:
  fixes s :: "'a SubmissionsForm_state_scheme"
  shows "let (calls, h', s') = handleSubmit_submissions (h, s);
             snapshot = last (submittedData s')
         in dereference h' snapshot
              = Some [str ''firstName'' \<mapsto> StringValue (firstName s),
                      str ''lastName'' \<mapsto> StringValue (lastName s)]
          \<and> dereference h snapshot = None
          \<and> submittedData s' = submittedData s @ [snapshot]
          \<and> (\<forall>later.
                dereference (fst (foldl dispatch (h', s') later)) snapshot
                  = dereference h' snapshot
                \<and> submittedData (snd (foldl dispatch (h', s') later)) ! length (submittedData s)
                  = snapshot)"
proof -
  let ?ob = "[str ''firstName'' \<mapsto> StringValue (firstName s),
              str ''lastName'' \<mapsto> StringValue (lastName s)]"
  let ?h' = "h @ [?ob]"
  let ?s' = "s\<lparr>submittedData := submittedData s @ [length h], firstName := [], lastName := []\<rparr>"
  have later:
    "dereference (fst (foldl dispatch (?h', ?s') later)) (length h) = dereference ?h' (length h)
     \<and> submittedData (snd (foldl dispatch (?h', ?s') later)) ! length (submittedData s)
       = length h"
    for later
  proof -
    obtain cells refs where ext:
      "fst (foldl dispatch (?h', ?s') later) = ?h' @ cells"
      "submittedData (snd (foldl dispatch (?h', ?s') later)) = submittedData ?s' @ refs"
      using foldl_dispatch_extends [of ?h' ?s' later] by auto
    have "dereference (?h' @ cells) (length h) = dereference ?h' (length h)"
      by (rule dereference_append) simp
    moreover have "(submittedData ?s' @ refs) ! length (submittedData s) = length h"
      by (simp add: nth_append)
    ultimately show ?thesis using ext by simp
  qed
  have stored: "dereference ?h' (length h) = Some ?ob"
    by (simp add: dereference_def)
  have fresh: "dereference h (length h) = None"
    by (simp add: dereference_def)
  show ?thesis
    unfolding handleSubmit_submissions_result Let_def
    using stored fresh later by simp
qed

end
